theory Spec2Isabelle
  imports Main
begin

section \<open>JavaScript values and errors\<close>

text \<open>
  The response body handed to \<open>extractData\<close> is a parsed JSON document. Numbers are kept
  as integers: no function below computes with them.
\<close>

datatype json =
    JNull
  | JBool bool
  | JNum int
  | JStr string
  | JArr "json list"
  | JObj "(string \<times> json) list"

text \<open>
  What a function of the source can throw: \<open>new Error(message)\<close>, the runtime's
  \<open>TypeError\<close> for a property read on \<open>undefined\<close> or \<open>null\<close>, and the two
  rejections of the HTTP client: \<open>AxiosBadStatus s\<close> is its error for an answer whose
  status \<open>s\<close> it does not accept (``Request failed with status code \<open>s\<close>''),
  \<open>AxiosError\<close> any other failure of the call.
\<close>

datatype error =
    Error string
  | TypeError
  | AxiosError string
  | AxiosBadStatus int

text \<open>
  The value \<open>undefined\<close> is \<open>None\<close>. \<open>get_prop v k\<close> is the property read \<open>v.k\<close> for
  an own key \<open>k\<close>: it throws on \<open>undefined\<close> and \<open>null\<close>, looks the key up in an
  object, and is \<open>undefined\<close> on every other value (the keys read by the source,
  \<open>tweet_results\<close>, \<open>user_results\<close>, \<open>result\<close> and \<open>value\<close>, are no inherited
  property of a string, number, boolean or array).
\<close>

fun get_prop :: "json option \<Rightarrow> string \<Rightarrow> error + json option" where
  "get_prop None k = Inl TypeError"
| "get_prop (Some JNull) k = Inl TypeError"
| "get_prop (Some (JObj kvs)) k = Inr (map_of kvs k)"
| "get_prop (Some v) k = Inr None"

text \<open>Optional chaining \<open>v?.k\<close>: \<open>undefined\<close> when \<open>v\<close> is \<open>undefined\<close> or \<open>null\<close>.\<close>

fun opt_prop :: "json option \<Rightarrow> string \<Rightarrow> error + json option" where
  "opt_prop None k = Inr None"
| "opt_prop (Some JNull) k = Inr None"
| "opt_prop v k = get_prop v k"

text \<open>The array read \<open>xs[0]\<close>: \<open>undefined\<close> on the empty array.\<close>

fun index0 :: "'a list \<Rightarrow> 'a option" where
  "index0 [] = None"
| "index0 (x # xs) = Some x"

text \<open>\<open>xs.map(f)\<close> with a callback that may throw: the first exception leaves the loop.\<close>

fun map_throwing :: "('a \<Rightarrow> error + 'b) \<Rightarrow> 'a list \<Rightarrow> error + 'b list" where
  "map_throwing f [] = Inr []"
| "map_throwing f (x # xs) =
     (case f x of
        Inl e \<Rightarrow> Inl e
      | Inr y \<Rightarrow> (case map_throwing f xs of Inl e \<Rightarrow> Inl e | Inr ys \<Rightarrow> Inr (y # ys)))"

section \<open>helper/JsonUtils\<close>

text \<open>
  Modelled from the spec: \<open>findByFilter\<close> of \<open>helper/JsonUtils\<close>, which is not part of
  the given sources. The spec says of it: given an arbitrarily-shaped JSON tree, walk it
  and find the nodes matching a type discriminator. The model walks the tree top-down,
  left to right, and returns every object whose field \<open>key\<close> is the string \<open>value\<close>.
\<close>

fun findByFilter :: "json \<Rightarrow> string \<Rightarrow> string \<Rightarrow> json list" where
  "findByFilter (JArr xs) key val = concat (map (\<lambda>x. findByFilter x key val) xs)"
| "findByFilter (JObj kvs) key val =
     (if map_of kvs key = Some (JStr val) then [JObj kvs] else [])
     @ concat (map (\<lambda>p. findByFilter (snd p) key val) kvs)"
| "findByFilter v key val = []"

text \<open>
  The same selection in the spec's words: \<open>nodes\<close> lists every node of the tree (the
  tree itself, then the nodes below it, top-down and left to right), and a node matches
  when it is an object whose field \<open>key\<close> equals the string \<open>value\<close>.
\<close>

fun nodes :: "json \<Rightarrow> json list" where
  "nodes (JArr xs) = JArr xs # concat (map nodes xs)"
| "nodes (JObj kvs) = JObj kvs # concat (map (\<lambda>p. nodes (snd p)) kvs)"
| "nodes v = [v]"

fun has_field :: "string \<Rightarrow> string \<Rightarrow> json \<Rightarrow> bool" where
  "has_field key val (JObj kvs) = (map_of kvs key = Some (JStr val))"
| "has_field key val v = False"

section \<open>Resource types and cursored data\<close>

text \<open>
  The enum \<open>EResourceType\<close> comes from the package \<open>rettiwt-core\<close>. Its members named
  in \<open>FetcherService.ts\<close> are the eleven of \<open>extractData\<close> and \<open>CREATE_TWEET\<close>;
  \<open>OTHER_RESOURCE\<close> stands for any member that the file does not name.
\<close>

datatype EResourceType =
    TWEET_DETAILS
  | USER_DETAILS
  | USER_DETAILS_BY_ID
  | TWEET_SEARCH
  | USER_LIKES
  | LIST_TWEETS
  | USER_TWEETS
  | TWEET_FAVORITERS
  | TWEET_RETWEETERS
  | USER_FOLLOWERS
  | USER_FOLLOWING
  | CREATE_TWEET
  | OTHER_RESOURCE string

text \<open>
  Modelled from the spec: the class \<open>CursoredData\<close> of \<open>models/CursoredData\<close>, which is
  not part of the given sources. The spec calls it a uniform cursored-list shape: the
  entities found, alongside a pagination cursor. The constructor call
  \<open>new CursoredData(required, cursor)\<close> stores its two arguments; an entity or the
  cursor may be \<open>undefined\<close>.
\<close>

record CursoredData =
  required :: "json option list"
  cursor :: "json option"

section \<open>FetcherService.extractData\<close>

text \<open>The callbacks \<open>(item) => item.tweet_results.result\<close> and
  \<open>(item) => item.user_results.result\<close>.\<close>

definition project :: "string \<Rightarrow> json \<Rightarrow> error + json option" where
  "project wrapper item =
     (case get_prop (Some item) wrapper of
        Inl e \<Rightarrow> Inl e
      | Inr w \<Rightarrow> get_prop w ''result'')"

text \<open>The first branch of the \<open>if\<close> chain that matches the type fills \<open>required\<close>;
  no branch leaves it \<open>[]\<close>.\<close>

definition extract_required :: "json \<Rightarrow> EResourceType \<Rightarrow> error + json option list" where
  "extract_required data type =
     (if type = TWEET_DETAILS then
        Inr (map Some (findByFilter data ''__typename'' ''Tweet''))
      else if type = USER_DETAILS \<or> type = USER_DETAILS_BY_ID then
        Inr (map Some (findByFilter data ''__typename'' ''User''))
      else if type = TWEET_SEARCH \<or> type = USER_LIKES \<or> type = LIST_TWEETS \<or> type = USER_TWEETS then
        map_throwing (project ''tweet_results'') (findByFilter data ''__typename'' ''TimelineTweet'')
      else if type = TWEET_FAVORITERS \<or> type = TWEET_RETWEETERS \<or> type = USER_FOLLOWERS
           \<or> type = USER_FOLLOWING then
        map_throwing (project ''user_results'') (findByFilter data ''__typename'' ''TimelineUser'')
      else Inr [])"

text \<open>\<open>findByFilter(data, 'cursorType', 'Bottom')[0]?.value\<close>\<close>

definition bottom_cursor :: "json \<Rightarrow> error + json option" where
  "bottom_cursor data = opt_prop (index0 (findByFilter data ''cursorType'' ''Bottom'')) ''value''"

definition extractData :: "json \<Rightarrow> EResourceType \<Rightarrow> error + CursoredData" where
  "extractData data type =
     (case extract_required data type of
        Inl e \<Rightarrow> Inl e
      | Inr req \<Rightarrow>
          (case bottom_cursor data of
             Inl e \<Rightarrow> Inl e
           | Inr c \<Rightarrow> Inr \<lparr>required = req, cursor = c\<rparr>))"

text \<open>
  \<open>extractData\<close> once more, with the two collaborators that the given sources do not
  hold as parameters that may throw: \<open>fbf\<close> for \<open>findByFilter\<close> and \<open>ctor\<close> for
  \<open>new CursoredData\<close>. What is left is the code of \<open>extractData\<close> itself: the
  \<open>if\<close> chain, the two callbacks, the read of the cursor, and the order of the calls
  (the entities first, then the arguments of the constructor, then the constructor).
\<close>

definition extract_required_with ::
  "(json \<Rightarrow> string \<Rightarrow> string \<Rightarrow> error + json list) \<Rightarrow> json \<Rightarrow> EResourceType
     \<Rightarrow> error + json option list" where
  "extract_required_with fbf data type =
     (if type = TWEET_DETAILS then
        (case fbf data ''__typename'' ''Tweet'' of Inl e \<Rightarrow> Inl e | Inr xs \<Rightarrow> Inr (map Some xs))
      else if type = USER_DETAILS \<or> type = USER_DETAILS_BY_ID then
        (case fbf data ''__typename'' ''User'' of Inl e \<Rightarrow> Inl e | Inr xs \<Rightarrow> Inr (map Some xs))
      else if type = TWEET_SEARCH \<or> type = USER_LIKES \<or> type = LIST_TWEETS \<or> type = USER_TWEETS then
        (case fbf data ''__typename'' ''TimelineTweet'' of
           Inl e \<Rightarrow> Inl e
         | Inr xs \<Rightarrow> map_throwing (project ''tweet_results'') xs)
      else if type = TWEET_FAVORITERS \<or> type = TWEET_RETWEETERS \<or> type = USER_FOLLOWERS
           \<or> type = USER_FOLLOWING then
        (case fbf data ''__typename'' ''TimelineUser'' of
           Inl e \<Rightarrow> Inl e
         | Inr xs \<Rightarrow> map_throwing (project ''user_results'') xs)
      else Inr [])"

definition extractData_with ::
  "(json \<Rightarrow> string \<Rightarrow> string \<Rightarrow> error + json list)
     \<Rightarrow> (json option list \<Rightarrow> json option \<Rightarrow> error + 'c) \<Rightarrow> json \<Rightarrow> EResourceType
     \<Rightarrow> error + 'c" where
  "extractData_with fbf ctor data type =
     (case extract_required_with fbf data type of
        Inl e \<Rightarrow> Inl e
      | Inr req \<Rightarrow>
          (case fbf data ''cursorType'' ''Bottom'' of
             Inl e \<Rightarrow> Inl e
           | Inr cs \<Rightarrow>
               (case opt_prop (index0 cs) ''value'' of
                  Inl e \<Rightarrow> Inl e
                | Inr c \<Rightarrow> ctor req c)))"

text \<open>
  The two collaborators as \<open>extractData\<close> above has them: the model of
  \<open>findByFilter\<close>, which always returns, and the constructor that stores its arguments.
\<close>

definition modelled_findByFilter :: "json \<Rightarrow> string \<Rightarrow> string \<Rightarrow> error + json list" where
  "modelled_findByFilter d key val = Inr (findByFilter d key val)"

definition storing_ctor :: "json option list \<Rightarrow> json option \<Rightarrow> error + CursoredData" where
  "storing_ctor req c = Inr \<lparr>required = req, cursor = c\<rparr>"

text \<open>
  The extraction in the spec's words. \<open>field\<close> reads a field of a node, \<open>subfield\<close> the
  field of a field; both are \<open>undefined\<close> where there is nothing to read.
  \<open>has_wrapper\<close> says that a node has the field and that it is not \<open>null\<close>.
  \<open>spec_cursor\<close> is the \<open>value\<close> field of the first node of the tree whose
  \<open>cursorType\<close> is \<open>Bottom\<close>.
\<close>

fun field :: "json \<Rightarrow> string \<Rightarrow> json option" where
  "field (JObj kvs) k = map_of kvs k"
| "field v k = None"

definition subfield :: "string \<Rightarrow> string \<Rightarrow> json \<Rightarrow> json option" where
  "subfield a b n = (case field n a of None \<Rightarrow> None | Some w \<Rightarrow> field w b)"

definition has_wrapper :: "string \<Rightarrow> json \<Rightarrow> bool" where
  "has_wrapper a n = (case field n a of None \<Rightarrow> False | Some JNull \<Rightarrow> False | Some w \<Rightarrow> True)"

definition matching :: "string \<Rightarrow> string \<Rightarrow> json \<Rightarrow> json list" where
  "matching key val d = filter (has_field key val) (nodes d)"

definition spec_cursor :: "json \<Rightarrow> json option" where
  "spec_cursor d =
     (case matching ''cursorType'' ''Bottom'' d of [] \<Rightarrow> None | n # ns \<Rightarrow> field n ''value'')"

text \<open>
  The extraction rule of a resource type, in the spec's words: the value of the
  discriminator \<open>__typename\<close> to look for and, for a timeline type, the wrapper field
  whose \<open>result\<close> is taken. \<open>apply_rule\<close> applies a rule to a tree.
\<close>

fun extraction_rule :: "EResourceType \<Rightarrow> (string \<times> string option) option" where
  "extraction_rule TWEET_DETAILS = Some (''Tweet'', None)"
| "extraction_rule USER_DETAILS = Some (''User'', None)"
| "extraction_rule USER_DETAILS_BY_ID = Some (''User'', None)"
| "extraction_rule TWEET_SEARCH = Some (''TimelineTweet'', Some ''tweet_results'')"
| "extraction_rule USER_LIKES = Some (''TimelineTweet'', Some ''tweet_results'')"
| "extraction_rule LIST_TWEETS = Some (''TimelineTweet'', Some ''tweet_results'')"
| "extraction_rule USER_TWEETS = Some (''TimelineTweet'', Some ''tweet_results'')"
| "extraction_rule TWEET_FAVORITERS = Some (''TimelineUser'', Some ''user_results'')"
| "extraction_rule TWEET_RETWEETERS = Some (''TimelineUser'', Some ''user_results'')"
| "extraction_rule USER_FOLLOWERS = Some (''TimelineUser'', Some ''user_results'')"
| "extraction_rule USER_FOLLOWING = Some (''TimelineUser'', Some ''user_results'')"
| "extraction_rule CREATE_TWEET = None"
| "extraction_rule (OTHER_RESOURCE name) = None"

fun apply_rule :: "(string \<times> string option) option \<Rightarrow> json \<Rightarrow> error + json option list" where
  "apply_rule None d = Inr []"
| "apply_rule (Some (tag, None)) d = Inr (map Some (matching ''__typename'' tag d))"
| "apply_rule (Some (tag, Some w)) d =
     (if list_all (has_wrapper w) (matching ''__typename'' tag d)
      then Inr (map (subfield w ''result'') (matching ''__typename'' tag d))
      else Inl TypeError)"

definition timeline_tweet_types :: "EResourceType list" where
  "timeline_tweet_types = [TWEET_SEARCH, USER_LIKES, LIST_TWEETS, USER_TWEETS]"

definition timeline_user_types :: "EResourceType list" where
  "timeline_user_types = [TWEET_FAVORITERS, TWEET_RETWEETERS, USER_FOLLOWERS, USER_FOLLOWING]"

definition detail_types :: "EResourceType list" where
  "detail_types = [TWEET_DETAILS, USER_DETAILS, USER_DETAILS_BY_ID]"

section \<open>Responses and the request pipeline\<close>

text \<open>
  The response types as the source reads them: \<open>res.status\<close>, \<open>res.data\<close>,
  \<open>res.data.errors\<close> (an optional array) and \<open>errors[0].code\<close>. \<open>tree\<close> is the
  body as the JSON tree that \<open>fetch\<close> hands to \<open>extractData\<close>.
\<close>

record IError =
  code :: int

record IResponse =
  errors :: "IError list option"
  tree :: json

record AxiosResponse =
  status :: int
  data :: IResponse

text \<open>
  What \<open>FetcherService\<close> uses and the given sources do not hold, as parameters:
  \<^item> \<open>newRequest\<close>: the constructor \<open>new Request(resourceType, args)\<close> of \<open>rettiwt-core\<close>;
  \<^item> \<open>http\<close>: what comes back for the request sent with the credential's headers and
    the agent, an answer of any status or a failure of the call;
  \<^item> \<open>EHttpStatus\<close>: the numeric enum of \<open>enums/HTTP\<close> read by status code,
    \<open>EHttpStatus[status]\<close>; \<open>status in EHttpStatus\<close> holds when the entry exists;
  \<^item> \<open>findKeyByValue_EErrorCodes\<close>: \<open>findKeyByValue(EErrorCodes, `${code}`)\<close> as a
    function of \<open>code\<close> (the helper is in \<open>helper/JsonUtils\<close>, the enum in
    \<open>rettiwt-core\<close>), \<open>undefined\<close> when no key is found;
  \<^item> \<open>EApiErrors\<close>: the enum of \<open>enums/ApiErrors\<close> read by key.
\<close>

record ('req, 'args) fetcher_env =
  newRequest :: "EResourceType \<Rightarrow> 'args \<Rightarrow> error + 'req"
  http :: "'req \<Rightarrow> error + AxiosResponse"
  EHttpStatus :: "int \<Rightarrow> string option"
  findKeyByValue_EErrorCodes :: "int \<Rightarrow> string option"
  EApiErrors :: "string \<Rightarrow> string option"

text \<open>
  The call \<open>axios(axiosRequest)\<close>. The configuration built by \<open>request\<close> (and by
  every other method of the class) sets no \<open>validateStatus\<close>, so the client keeps its
  default: it resolves with an answer whose status is from 200 to 299 and rejects on any
  other status.
\<close>

definition axios :: "('req, 'args) fetcher_env \<Rightarrow> 'req \<Rightarrow> error + AxiosResponse" where
  "axios env config =
     (case http env config of
        Inl e \<Rightarrow> Inl e
      | Inr res \<Rightarrow>
          (if 200 \<le> status res \<and> status res < 300 then Inr res
           else Inl (AxiosBadStatus (status res))))"

text \<open>\<open>new Error(message)\<close>: the message of an error made from \<open>undefined\<close> is empty.\<close>

fun new_Error :: "string option \<Rightarrow> error" where
  "new_Error None = Error []"
| "new_Error (Some m) = Error m"

definition handleHttpError :: "('req, 'args) fetcher_env \<Rightarrow> AxiosResponse \<Rightarrow> error + AxiosResponse" where
  "handleHttpError env res =
     (if status res \<noteq> 200 \<and> EHttpStatus env (status res) \<noteq> None
      then Inl (new_Error (EHttpStatus env (status res)))
      else Inr res)"

text \<open>\<open>EApiErrors[key]\<close>: the key \<open>undefined\<close> reads the property named \<open>undefined\<close>.\<close>

definition api_message :: "('req, 'args) fetcher_env \<Rightarrow> int \<Rightarrow> string option" where
  "api_message env c =
     EApiErrors env (case findKeyByValue_EErrorCodes env c of None \<Rightarrow> ''undefined'' | Some k \<Rightarrow> k)"

definition handleApiError :: "('req, 'args) fetcher_env \<Rightarrow> AxiosResponse \<Rightarrow> error + AxiosResponse" where
  "handleApiError env res =
     (case errors (data res) of
        None \<Rightarrow> Inr res
      | Some [] \<Rightarrow> Inr res
      | Some (e # es) \<Rightarrow> Inl (new_Error (api_message env (code e))))"

definition request :: "('req, 'args) fetcher_env \<Rightarrow> 'req \<Rightarrow> error + AxiosResponse" where
  "request env config =
     (case axios env config of
        Inl e \<Rightarrow> Inl e
      | Inr res \<Rightarrow>
          (case handleHttpError env res of
             Inl e \<Rightarrow> Inl e
           | Inr res' \<Rightarrow> handleApiError env res'))"

definition fetch :: "('req, 'args) fetcher_env \<Rightarrow> EResourceType \<Rightarrow> 'args \<Rightarrow> error + CursoredData" where
  "fetch env resourceType args =
     (case newRequest env resourceType args of
        Inl e \<Rightarrow> Inl e
      | Inr req \<Rightarrow>
          (case request env req of
             Inl e \<Rightarrow> Inl e
           | Inr res \<Rightarrow> extractData (tree (data res)) resourceType))"

definition post :: "('req, 'args) fetcher_env \<Rightarrow> EResourceType \<Rightarrow> 'args \<Rightarrow> error + bool" where
  "post env resourceType args =
     (case newRequest env resourceType args of
        Inl e \<Rightarrow> Inl e
      | Inr req \<Rightarrow>
          (case request env req of
             Inl e \<Rightarrow> Inl e
           | Inr res \<Rightarrow> Inr True))"

section \<open>TweetService.getTweetById\<close>

text \<open>
  \<open>getTweetById\<close> calls six functions that the given sources do not hold; they are
  parameters. \<open>'w\<close> is the state they share (the cache, the network). Each one may throw.
  \<^item> \<open>readData\<close>: the awaited value of \<open>this.readData(tweetId)\<close>; \<open>None\<close> is a value
    that the test \<open>if(cachedData)\<close> takes for false;
  \<^item> \<open>tweetDetailsUrl\<close>: the URL of the tweet;
  \<^item> \<open>fetchData\<close>: \<open>this.fetchData(url, undefined, undefined, false)\<close> followed by
    \<open>res.json()\<close>;
  \<^item> \<open>extractTweet\<close>, with \<open>data_required\<close> for the read \<open>data.required\<close>;
  \<^item> \<open>cacheData\<close>;
  \<^item> \<open>toTweet\<close>, called on \<open>data.required[0]\<close>.
\<close>

record ('w, 'dat, 'raw, 'tweet) tweet_env =
  readData :: "'w \<Rightarrow> string \<Rightarrow> (error + 'tweet option) \<times> 'w"
  tweetDetailsUrl :: "string \<Rightarrow> string"
  fetchData :: "'w \<Rightarrow> string \<Rightarrow> (error + json) \<times> 'w"
  extractTweet :: "json \<Rightarrow> string \<Rightarrow> error + 'dat"
  data_required :: "'dat \<Rightarrow> 'raw list"
  cacheData :: "'w \<Rightarrow> 'dat \<Rightarrow> (error + unit) \<times> 'w"
  toTweet :: "'raw option \<Rightarrow> error + 'tweet"

text \<open>The calls that a run of \<open>getTweetById\<close> makes, in order.\<close>

datatype call =
    ReadData string
  | FetchData string
  | ExtractTweet
  | CacheData
  | ToTweet

text \<open>The result is the value returned or the error thrown, the state after the run, and
  the calls made.\<close>

definition getTweetById ::
  "('w, 'dat, 'raw, 'tweet) tweet_env \<Rightarrow> 'w \<Rightarrow> string \<Rightarrow> (error + 'tweet) \<times> 'w \<times> call list" where
  "getTweetById env w tweetId =
     (case readData env w tweetId of
        (Inl e, w1) \<Rightarrow> (Inl e, w1, [ReadData tweetId])
      | (Inr (Some cachedData), w1) \<Rightarrow> (Inr cachedData, w1, [ReadData tweetId])
      | (Inr None, w1) \<Rightarrow>
          (case fetchData env w1 (tweetDetailsUrl env tweetId) of
             (Inl e, w2) \<Rightarrow>
               (Inl e, w2, [ReadData tweetId, FetchData (tweetDetailsUrl env tweetId)])
           | (Inr res, w2) \<Rightarrow>
               (case extractTweet env res tweetId of
                  Inl e \<Rightarrow>
                    (Inl e, w2,
                     [ReadData tweetId, FetchData (tweetDetailsUrl env tweetId), ExtractTweet])
                | Inr dat \<Rightarrow>
                    (case cacheData env w2 dat of
                       (Inl e, w3) \<Rightarrow>
                         (Inl e, w3,
                          [ReadData tweetId, FetchData (tweetDetailsUrl env tweetId), ExtractTweet,
                           CacheData])
                     | (Inr u, w3) \<Rightarrow>
                         (toTweet env (index0 (data_required env dat)), w3,
                          [ReadData tweetId, FetchData (tweetDetailsUrl env tweetId), ExtractTweet,
                           CacheData, ToTweet])))))"

text \<open>When \<open>extractData\<close> can project every node it selected: each node selected for a
  timeline type has its wrapper.\<close>

definition wrappers_ok :: "EResourceType \<Rightarrow> json \<Rightarrow> bool" where
  "wrappers_ok t d =
     (case extraction_rule t of
        None \<Rightarrow> True
      | Some (tag, None) \<Rightarrow> True
      | Some (tag, Some w) \<Rightarrow> list_all (has_wrapper w) (matching ''__typename'' tag d))"

section \<open>Concrete inputs\<close>

text \<open>A timeline with one tweet, one user and a bottom cursor; a timeline entry that has
  no \<open>tweet_results\<close>; and a body with nothing to find.\<close>

definition sample_tweet :: json where
  "sample_tweet = JObj [(''__typename'', JStr ''Tweet''), (''rest_id'', JStr ''1'')]"

definition sample_user :: json where
  "sample_user = JObj [(''__typename'', JStr ''User''), (''rest_id'', JStr ''7'')]"

definition sample_tree :: json where
  "sample_tree =
     JObj [(''entries'',
       JArr [JObj [(''__typename'', JStr ''TimelineTweet''),
                   (''tweet_results'', JObj [(''result'', sample_tweet)])],
             JObj [(''__typename'', JStr ''TimelineUser''),
                   (''user_results'', JObj [(''result'', sample_user)])],
             JObj [(''cursorType'', JStr ''Bottom''), (''value'', JStr ''c1'')]])]"

definition bare_entry :: json where
  "bare_entry = JObj [(''__typename'', JStr ''TimelineTweet'')]"

definition empty_body :: json where
  "empty_body = JObj [(''data'', JNull)]"

text \<open>A timeline with one tweet and no cursor; a timeline entry whose wrapper has no
  \<open>result\<close>; and a timeline with a top cursor between two bottom cursors, the first of
  them inside an entry.\<close>

definition no_cursor_tree :: json where
  "no_cursor_tree =
     JArr [JObj [(''__typename'', JStr ''TimelineTweet''),
                 (''tweet_results'', JObj [(''result'', sample_tweet)])]]"

definition empty_wrapper_entry :: json where
  "empty_wrapper_entry =
     JObj [(''__typename'', JStr ''TimelineTweet''), (''tweet_results'', JObj [])]"

definition two_cursors :: json where
  "two_cursors =
     JArr [JObj [(''content'', JObj [(''cursorType'', JStr ''Bottom''), (''value'', JStr ''c1'')])],
           JObj [(''cursorType'', JStr ''Top''), (''value'', JStr ''c0'')],
           JObj [(''cursorType'', JStr ''Bottom''), (''value'', JStr ''c2'')]]"

text \<open>A constructor that throws.\<close>

definition throwing_ctor :: "json option list \<Rightarrow> json option \<Rightarrow> error + CursoredData" where
  "throwing_ctor req c = Inl (Error ''constructor'')"

text \<open>An environment where the answer has the status asked for and the platform errors
  asked for; the entries of its tables are examples.\<close>

definition sample_response :: "int \<Rightarrow> int list \<Rightarrow> AxiosResponse" where
  "sample_response s cs =
     \<lparr>status = s,
      data = \<lparr>errors = (if cs = [] then None else Some (map (\<lambda>c. \<lparr>code = c\<rparr>) cs)),
              tree = sample_tree\<rparr>\<rparr>"

definition sample_env :: "(int \<times> int list, int \<times> int list) fetcher_env" where
  "sample_env =
     \<lparr>newRequest = (\<lambda>t a. if fst a < 0 then Inl (Error ''invalid arguments'') else Inr a),
      http = (\<lambda>req. Inr (sample_response (fst req) (snd req))),
      EHttpStatus = map_of [(404, ''NOT_FOUND''), (429, ''TOO_MANY_REQUESTS'')],
      findKeyByValue_EErrorCodes =
        map_of [(32, ''COULD_NOT_AUTHENTICATE''), (88, ''RATE_LIMIT_EXCEEDED''),
                (326, ''ACCOUNT_LOCKED'')],
      EApiErrors =
        map_of [(''COULD_NOT_AUTHENTICATE'', ''Failed to authenticate''),
                (''RATE_LIMIT_EXCEEDED'', ''Too many requests'')]\<rparr>"

text \<open>A tweet service whose state is the cache, a list of identifiers and tweets.\<close>

definition sample_tweet_env ::
  "((string \<times> string) list, string list, string, string) tweet_env" where
  "sample_tweet_env =
     \<lparr>readData = (\<lambda>w i. (Inr (map_of w i), w)),
      tweetDetailsUrl = (\<lambda>i. ''/TweetDetail/'' @ i),
      fetchData = (\<lambda>w url. (Inr sample_tree, w)),
      extractTweet = (\<lambda>res i. Inr [i]),
      data_required = (\<lambda>dat. dat),
      cacheData = (\<lambda>w dat. (Inr (), map (\<lambda>r. (r, ''tweet '' @ r)) dat @ w)),
      toTweet = (\<lambda>r. case r of None \<Rightarrow> Inl TypeError | Some i \<Rightarrow> Inr (''tweet '' @ i))\<rparr>"

section \<open>The selection is a filter over the nodes of the tree\<close>

lemma findByFilter_matching: "findByFilter d key val = matching key val d"
  unfolding matching_def
proof (induction d key val rule: findByFilter.induct)
  case (1 xs key val)
  then show ?case by (induction xs) auto
next
  case (2 kvs key val)
  then have "concat (map (\<lambda>p. findByFilter (snd p) key val) kvs)
           = filter (has_field key val) (concat (map (\<lambda>p. nodes (snd p)) kvs))"
    by (induction kvs) auto
  then show ?case by simp
qed simp_all

section \<open>The reads of extractData\<close>

lemma project_wrapper:
  "project w n = (if has_wrapper w n then Inr (subfield w ''result'' n) else Inl TypeError)"
proof (cases n)
  case (JObj kvs)
  show ?thesis
  proof (cases "map_of kvs w")
    case None
    with JObj show ?thesis by (simp add: project_def has_wrapper_def)
  next
    case (Some v)
    with JObj show ?thesis
      by (cases v) (simp_all add: project_def has_wrapper_def subfield_def)
  qed
qed (simp_all add: project_def has_wrapper_def)

lemma map_throwing_project:
  "map_throwing (project w) ns =
     (if list_all (has_wrapper w) ns then Inr (map (subfield w ''result'') ns) else Inl TypeError)"
  by (induction ns) (simp_all add: project_wrapper)

lemma first_value:
  "opt_prop (index0 cs) ''value'' = Inr (case cs of [] \<Rightarrow> None | n # ns \<Rightarrow> field n ''value'')"
proof (cases cs)
  case Nil
  then show ?thesis by simp
next
  case (Cons n ns)
  then show ?thesis by (cases n) simp_all
qed

lemma bottom_cursor_spec: "bottom_cursor d = Inr (spec_cursor d)"
  by (simp add: bottom_cursor_def spec_cursor_def first_value findByFilter_matching)

lemma extract_required_rule: "extract_required d t = apply_rule (extraction_rule t) d"
  by (cases t) (simp_all add: extract_required_def findByFilter_matching map_throwing_project)

lemma extractData_rule:
  "extractData d t =
     (case apply_rule (extraction_rule t) d of
        Inl e \<Rightarrow> Inl e
      | Inr req \<Rightarrow> Inr \<lparr>required = req, cursor = spec_cursor d\<rparr>)"
  by (simp add: extractData_def extract_required_rule bottom_cursor_spec split: sum.splits)

lemma extract_required_with_modelled:
  "extract_required_with modelled_findByFilter d t = extract_required d t"
  by (simp add: extract_required_with_def extract_required_def modelled_findByFilter_def)

lemma extractData_with_modelled:
  "extractData_with modelled_findByFilter storing_ctor d t = extractData d t"
  by (simp add: extractData_with_def extractData_def extract_required_with_modelled
      bottom_cursor_def modelled_findByFilter_def storing_ctor_def split: sum.splits)

section \<open>What extractData returns\<close>

lemmas sample_defs =
  sample_tree_def sample_tweet_def sample_user_def bare_entry_def empty_body_def
  no_cursor_tree_def empty_wrapper_entry_def two_cursors_def

lemmas extract_defs =
  extractData_def extract_required_def bottom_cursor_def project_def

text \<open>
  C1. For a detail resource type, \<open>extractData\<close> returns the nodes of the tree whose
  \<open>__typename\<close> is \<open>Tweet\<close> (for \<open>TWEET_DETAILS\<close>) or \<open>User\<close> (for
  \<open>USER_DETAILS\<close> and \<open>USER_DETAILS_BY_ID\<close>), in the order of the tree, alongside the
  cursor.
\<close>

theorem extractData_details:
  "extractData d TWEET_DETAILS =
     Inr \<lparr>required = map Some (matching ''__typename'' ''Tweet'' d), cursor = spec_cursor d\<rparr>
   \<and> extractData d USER_DETAILS =
     Inr \<lparr>required = map Some (matching ''__typename'' ''User'' d), cursor = spec_cursor d\<rparr>
   \<and> extractData d USER_DETAILS_BY_ID =
     Inr \<lparr>required = map Some (matching ''__typename'' ''User'' d), cursor = spec_cursor d\<rparr>"
  by (simp add: extractData_rule)

theorem extractData_details_witness:
  "extractData sample_tree TWEET_DETAILS =
     Inr \<lparr>required = [Some sample_tweet], cursor = Some (JStr ''c1'')\<rparr>
   \<and> extractData sample_tree USER_DETAILS_BY_ID =
     Inr \<lparr>required = [Some sample_user], cursor = Some (JStr ''c1'')\<rparr>"
  using extractData_details [of sample_tree]
  by (simp add: matching_def spec_cursor_def sample_defs)

text \<open>
  C2. For the four tweet timelines, \<open>extractData\<close> takes every node whose \<open>__typename\<close>
  is \<open>TimelineTweet\<close> and returns the \<open>tweet_results.result\<close> of each; for the four
  user timelines, every node whose \<open>__typename\<close> is \<open>TimelineUser\<close> and the
  \<open>user_results.result\<close> of each. Where a selected node has no wrapper to read
  \<open>result\<close> from, the projection throws.
\<close>

theorem extractData_timeline:
  "(t \<in> set timeline_tweet_types \<longrightarrow>
      extractData d t =
        (if list_all (has_wrapper ''tweet_results'') (matching ''__typename'' ''TimelineTweet'' d)
         then Inr \<lparr>required = map (subfield ''tweet_results'' ''result'')
                                 (matching ''__typename'' ''TimelineTweet'' d),
                    cursor = spec_cursor d\<rparr>
         else Inl TypeError))
   \<and> (t \<in> set timeline_user_types \<longrightarrow>
      extractData d t =
        (if list_all (has_wrapper ''user_results'') (matching ''__typename'' ''TimelineUser'' d)
         then Inr \<lparr>required = map (subfield ''user_results'' ''result'')
                                 (matching ''__typename'' ''TimelineUser'' d),
                    cursor = spec_cursor d\<rparr>
         else Inl TypeError))"
  by (cases t) (simp_all add: extractData_rule timeline_tweet_types_def timeline_user_types_def)

theorem extractData_timeline_witness:
  "USER_LIKES \<in> set timeline_tweet_types
   \<and> extractData sample_tree USER_LIKES =
       Inr \<lparr>required = [Some sample_tweet], cursor = Some (JStr ''c1'')\<rparr>
   \<and> TWEET_RETWEETERS \<in> set timeline_user_types
   \<and> extractData sample_tree TWEET_RETWEETERS =
       Inr \<lparr>required = [Some sample_user], cursor = Some (JStr ''c1'')\<rparr>"
  using extractData_timeline [of USER_LIKES sample_tree]
    extractData_timeline [of TWEET_RETWEETERS sample_tree]
  by (simp add: timeline_tweet_types_def timeline_user_types_def matching_def spec_cursor_def
      has_wrapper_def subfield_def sample_defs)

text \<open>
  C5. For every tree and every resource type, the cursor of what \<open>extractData\<close> returns
  is the \<open>value\<close> field of the first node whose \<open>cursorType\<close> is \<open>Bottom\<close>, and
  \<open>undefined\<close> when the tree has no such node. \<open>extractData\<close> returns, with this
  cursor, whenever the projection of the entities does not throw (which it never does for
  a type that is no timeline); reading the cursor never throws.
\<close>

theorem extractData_cursor:
  "map_sum id cursor (extractData d t) =
     (if wrappers_ok t d
      then Inr (case matching ''cursorType'' ''Bottom'' d of [] \<Rightarrow> None | n # ns \<Rightarrow> field n ''value'')
      else Inl TypeError)
   \<and> (\<forall>r. extractData d t = Inr r \<longrightarrow>
         cursor r = (case matching ''cursorType'' ''Bottom'' d of [] \<Rightarrow> None | n # ns \<Rightarrow> field n ''value''))
   \<and> (wrappers_ok t d \<and> matching ''cursorType'' ''Bottom'' d = [] \<longrightarrow>
         (\<exists>r. extractData d t = Inr r \<and> cursor r = None))
   \<and> (\<forall>n ns. wrappers_ok t d \<and> matching ''cursorType'' ''Bottom'' d = n # ns \<longrightarrow>
         (\<exists>r. extractData d t = Inr r \<and> cursor r = field n ''value''))
   \<and> (t \<notin> set timeline_tweet_types \<and> t \<notin> set timeline_user_types \<longrightarrow> wrappers_ok t d)
   \<and> bottom_cursor d = Inr (spec_cursor d)"
proof -
  have eq: "map_sum id cursor (extractData d t) =
     (if wrappers_ok t d
      then Inr (case matching ''cursorType'' ''Bottom'' d of [] \<Rightarrow> None | n # ns \<Rightarrow> field n ''value'')
      else Inl TypeError)"
    by (cases t) (simp_all add: extractData_rule wrappers_ok_def spec_cursor_def)
  have ret: "\<forall>r. extractData d t = Inr r \<longrightarrow>
         cursor r = (case matching ''cursorType'' ''Bottom'' d of [] \<Rightarrow> None | n # ns \<Rightarrow> field n ''value'')"
    by (auto simp add: extractData_rule spec_cursor_def split: sum.splits)
  have ok: "wrappers_ok t d \<longrightarrow> (\<exists>r. extractData d t = Inr r \<and> cursor r = spec_cursor d)"
    by (cases t) (simp_all add: extractData_rule wrappers_ok_def)
  have none: "wrappers_ok t d \<and> matching ''cursorType'' ''Bottom'' d = [] \<longrightarrow>
         (\<exists>r. extractData d t = Inr r \<and> cursor r = None)"
    using ok by (auto simp add: spec_cursor_def)
  have some: "\<forall>n ns. wrappers_ok t d \<and> matching ''cursorType'' ''Bottom'' d = n # ns \<longrightarrow>
         (\<exists>r. extractData d t = Inr r \<and> cursor r = field n ''value'')"
    using ok by (auto simp add: spec_cursor_def)
  have other: "t \<notin> set timeline_tweet_types \<and> t \<notin> set timeline_user_types \<longrightarrow> wrappers_ok t d"
    by (cases t) (simp_all add: wrappers_ok_def timeline_tweet_types_def timeline_user_types_def)
  from eq ret none some other bottom_cursor_spec [of d] show ?thesis by blast
qed

theorem extractData_cursor_witness:
  "extractData no_cursor_tree TWEET_SEARCH = Inr \<lparr>required = [Some sample_tweet], cursor = None\<rparr>
   \<and> map_sum id cursor (extractData no_cursor_tree TWEET_SEARCH) = Inr None
   \<and> map_sum id cursor (extractData empty_body USER_DETAILS) = Inr None
   \<and> map_sum id cursor (extractData sample_tree TWEET_SEARCH) = Inr (Some (JStr ''c1''))
   \<and> map_sum id cursor (extractData two_cursors CREATE_TWEET) = Inr (Some (JStr ''c1''))
   \<and> map_sum id cursor (extractData bare_entry TWEET_SEARCH) = Inl TypeError"
proof -
  have run: "extractData no_cursor_tree TWEET_SEARCH
      = Inr \<lparr>required = [Some sample_tweet], cursor = None\<rparr>"
    by (simp add: extract_defs sample_defs)
  have ok: "wrappers_ok TWEET_SEARCH no_cursor_tree" "wrappers_ok USER_DETAILS empty_body"
    "wrappers_ok TWEET_SEARCH sample_tree" "wrappers_ok CREATE_TWEET two_cursors"
    "\<not> wrappers_ok TWEET_SEARCH bare_entry"
    by (simp_all add: wrappers_ok_def matching_def has_wrapper_def sample_defs)
  have cur: "matching ''cursorType'' ''Bottom'' no_cursor_tree = []"
    "matching ''cursorType'' ''Bottom'' empty_body = []"
    "matching ''cursorType'' ''Bottom'' sample_tree
       = [JObj [(''cursorType'', JStr ''Bottom''), (''value'', JStr ''c1'')]]"
    "matching ''cursorType'' ''Bottom'' two_cursors
       = [JObj [(''cursorType'', JStr ''Bottom''), (''value'', JStr ''c1'')],
          JObj [(''cursorType'', JStr ''Bottom''), (''value'', JStr ''c2'')]]"
    by (simp_all add: matching_def sample_defs)
  have a: "map_sum id cursor (extractData no_cursor_tree TWEET_SEARCH) = Inr None"
    using extractData_cursor [of no_cursor_tree TWEET_SEARCH, THEN conjunct1] ok cur by simp
  have b: "map_sum id cursor (extractData empty_body USER_DETAILS) = Inr None"
    using extractData_cursor [of empty_body USER_DETAILS, THEN conjunct1] ok cur by simp
  have c: "map_sum id cursor (extractData sample_tree TWEET_SEARCH) = Inr (Some (JStr ''c1''))"
    using extractData_cursor [of sample_tree TWEET_SEARCH, THEN conjunct1] ok cur by simp
  have d: "map_sum id cursor (extractData two_cursors CREATE_TWEET) = Inr (Some (JStr ''c1''))"
    using extractData_cursor [of two_cursors CREATE_TWEET, THEN conjunct1] ok cur by simp
  have e: "map_sum id cursor (extractData bare_entry TWEET_SEARCH) = Inl TypeError"
    using extractData_cursor [of bare_entry TWEET_SEARCH, THEN conjunct1] ok by simp
  from run a b c d e show ?thesis by simp
qed

text \<open>
  C6, as the claim states it, fails: on a \<open>TimelineTweet\<close> node that has no
  \<open>tweet_results\<close>, the read \<open>item.tweet_results.result\<close> throws a \<open>TypeError\<close>.
\<close>

theorem extractData_total_counterexample:
  "extractData (JObj [(''__typename'', JStr ''TimelineTweet'')]) TWEET_SEARCH = Inl TypeError"
  by (simp add: extract_defs)

text \<open>
  C6, amended. \<open>extractData\<close> is not total: when a node that \<open>findByFilter\<close> selected
  for a timeline type has no wrapper (\<open>tweet_results\<close> or \<open>user_results\<close> is absent or
  \<open>null\<close>), it throws a \<open>TypeError\<close>. Nothing else in its own code throws: whenever
  its calls of \<open>findByFilter\<close> return, and every node selected for a timeline type has
  its wrapper, \<open>extractData\<close> ends in the call of the \<open>CursoredData\<close> constructor and
  returns or throws what that call does. The constructor is called with the entities
  (none when no node was selected, an \<open>undefined\<close> one for a wrapper without
  \<open>result\<close>) and with the \<open>value\<close> of the first \<open>Bottom\<close> node that
  \<open>findByFilter\<close> gave, \<open>undefined\<close> when it gave none. This holds for any
  \<open>findByFilter\<close> and any constructor; \<open>extractData\<close> above is the case of the
  modelled ones.
\<close>

theorem extractData_total_amended:
  "(\<forall>tag w ns. extraction_rule t = Some (tag, Some w) \<and> fbf d ''__typename'' tag = Inr ns
        \<and> \<not> list_all (has_wrapper w) ns \<longrightarrow>
        extractData_with fbf ctor d t = Inl TypeError)
   \<and> (\<forall>tag w ns cs. extraction_rule t = Some (tag, Some w) \<and> fbf d ''__typename'' tag = Inr ns
        \<and> list_all (has_wrapper w) ns \<and> fbf d ''cursorType'' ''Bottom'' = Inr cs \<longrightarrow>
        extractData_with fbf ctor d t =
          ctor (map (subfield w ''result'') ns)
               (case cs of [] \<Rightarrow> None | n # ms \<Rightarrow> field n ''value''))
   \<and> (\<forall>tag ns cs. extraction_rule t = Some (tag, None) \<and> fbf d ''__typename'' tag = Inr ns
        \<and> fbf d ''cursorType'' ''Bottom'' = Inr cs \<longrightarrow>
        extractData_with fbf ctor d t =
          ctor (map Some ns) (case cs of [] \<Rightarrow> None | n # ms \<Rightarrow> field n ''value''))
   \<and> (\<forall>cs. extraction_rule t = None \<and> fbf d ''cursorType'' ''Bottom'' = Inr cs \<longrightarrow>
        extractData_with fbf ctor d t =
          ctor [] (case cs of [] \<Rightarrow> None | n # ms \<Rightarrow> field n ''value''))
   \<and> extractData d t = extractData_with modelled_findByFilter storing_ctor d t"
proof (intro conjI allI impI)
  fix tag w ns
  assume "extraction_rule t = Some (tag, Some w) \<and> fbf d ''__typename'' tag = Inr ns
        \<and> \<not> list_all (has_wrapper w) ns"
  then show "extractData_with fbf ctor d t = Inl TypeError"
    by (cases t)
      (simp_all add: extractData_with_def extract_required_with_def map_throwing_project)
next
  fix tag w ns cs
  assume "extraction_rule t = Some (tag, Some w) \<and> fbf d ''__typename'' tag = Inr ns
        \<and> list_all (has_wrapper w) ns \<and> fbf d ''cursorType'' ''Bottom'' = Inr cs"
  then show "extractData_with fbf ctor d t =
          ctor (map (subfield w ''result'') ns)
               (case cs of [] \<Rightarrow> None | n # ms \<Rightarrow> field n ''value'')"
    by (cases t)
      (simp_all add: extractData_with_def extract_required_with_def map_throwing_project
        first_value)
next
  fix tag ns cs
  assume "extraction_rule t = Some (tag, None) \<and> fbf d ''__typename'' tag = Inr ns
        \<and> fbf d ''cursorType'' ''Bottom'' = Inr cs"
  then show "extractData_with fbf ctor d t =
          ctor (map Some ns) (case cs of [] \<Rightarrow> None | n # ms \<Rightarrow> field n ''value'')"
    by (cases t) (simp_all add: extractData_with_def extract_required_with_def first_value)
next
  fix cs
  assume "extraction_rule t = None \<and> fbf d ''cursorType'' ''Bottom'' = Inr cs"
  then show "extractData_with fbf ctor d t =
          ctor [] (case cs of [] \<Rightarrow> None | n # ms \<Rightarrow> field n ''value'')"
    by (cases t) (simp_all add: extractData_with_def extract_required_with_def first_value)
next
  show "extractData d t = extractData_with modelled_findByFilter storing_ctor d t"
    by (simp add: extractData_with_modelled)
qed

theorem extractData_total_amended_witness:
  "extractData_with modelled_findByFilter storing_ctor bare_entry TWEET_SEARCH = Inl TypeError
   \<and> extractData_with modelled_findByFilter throwing_ctor bare_entry TWEET_SEARCH = Inl TypeError
   \<and> extractData_with modelled_findByFilter storing_ctor no_cursor_tree TWEET_SEARCH
       = Inr \<lparr>required = [Some sample_tweet], cursor = None\<rparr>
   \<and> extractData_with modelled_findByFilter storing_ctor empty_wrapper_entry TWEET_SEARCH
       = Inr \<lparr>required = [None], cursor = None\<rparr>
   \<and> extractData_with modelled_findByFilter throwing_ctor no_cursor_tree TWEET_SEARCH
       = Inl (Error ''constructor'')
   \<and> extractData_with modelled_findByFilter storing_ctor empty_body USER_DETAILS
       = Inr \<lparr>required = [], cursor = None\<rparr>
   \<and> extractData_with modelled_findByFilter storing_ctor sample_tree CREATE_TWEET
       = Inr \<lparr>required = [], cursor = Some (JStr ''c1'')\<rparr>
   \<and> extractData no_cursor_tree TWEET_SEARCH
       = Inr \<lparr>required = [Some sample_tweet], cursor = None\<rparr>"
proof -
  have rule: "extraction_rule TWEET_SEARCH = Some (''TimelineTweet'', Some ''tweet_results'')"
    "extraction_rule USER_DETAILS = Some (''User'', None)"
    "extraction_rule CREATE_TWEET = None"
    by simp_all
  have sel: "modelled_findByFilter bare_entry ''__typename'' ''TimelineTweet'' = Inr [bare_entry]"
    "modelled_findByFilter no_cursor_tree ''__typename'' ''TimelineTweet''
       = Inr [JObj [(''__typename'', JStr ''TimelineTweet''),
                    (''tweet_results'', JObj [(''result'', sample_tweet)])]]"
    "modelled_findByFilter empty_wrapper_entry ''__typename'' ''TimelineTweet''
       = Inr [empty_wrapper_entry]"
    "modelled_findByFilter empty_body ''__typename'' ''User'' = Inr []"
    by (simp_all add: modelled_findByFilter_def sample_defs)
  have cur: "modelled_findByFilter no_cursor_tree ''cursorType'' ''Bottom'' = Inr []"
    "modelled_findByFilter empty_wrapper_entry ''cursorType'' ''Bottom'' = Inr []"
    "modelled_findByFilter empty_body ''cursorType'' ''Bottom'' = Inr []"
    "modelled_findByFilter sample_tree ''cursorType'' ''Bottom''
       = Inr [JObj [(''cursorType'', JStr ''Bottom''), (''value'', JStr ''c1'')]]"
    by (simp_all add: modelled_findByFilter_def sample_defs)
  have bad: "\<not> list_all (has_wrapper ''tweet_results'') [bare_entry]"
    by (simp add: has_wrapper_def sample_defs)
  have good: "list_all (has_wrapper ''tweet_results'')
       [JObj [(''__typename'', JStr ''TimelineTweet''),
              (''tweet_results'', JObj [(''result'', sample_tweet)])]]"
    "list_all (has_wrapper ''tweet_results'') [empty_wrapper_entry]"
    by (simp_all add: has_wrapper_def sample_defs)
  have a: "extractData_with modelled_findByFilter storing_ctor bare_entry TWEET_SEARCH = Inl TypeError"
    using extractData_total_amended [where t = TWEET_SEARCH and fbf = modelled_findByFilter
        and d = bare_entry and ctor = storing_ctor, THEN conjunct1, rule_format,
        OF conjI [OF rule(1) conjI [OF sel(1) bad]]] .
  have a': "extractData_with modelled_findByFilter throwing_ctor bare_entry TWEET_SEARCH = Inl TypeError"
    using extractData_total_amended [where t = TWEET_SEARCH and fbf = modelled_findByFilter
        and d = bare_entry and ctor = throwing_ctor, THEN conjunct1, rule_format,
        OF conjI [OF rule(1) conjI [OF sel(1) bad]]] .
  have b: "extractData_with modelled_findByFilter storing_ctor no_cursor_tree TWEET_SEARCH
       = Inr \<lparr>required = [Some sample_tweet], cursor = None\<rparr>"
    using extractData_total_amended [where t = TWEET_SEARCH and fbf = modelled_findByFilter
        and d = no_cursor_tree and ctor = storing_ctor, THEN conjunct2, THEN conjunct1,
        rule_format, OF conjI [OF rule(1) conjI [OF sel(2) conjI [OF good(1) cur(1)]]]]
    by (simp add: storing_ctor_def subfield_def)
  have c: "extractData_with modelled_findByFilter storing_ctor empty_wrapper_entry TWEET_SEARCH
       = Inr \<lparr>required = [None], cursor = None\<rparr>"
    using extractData_total_amended [where t = TWEET_SEARCH and fbf = modelled_findByFilter
        and d = empty_wrapper_entry and ctor = storing_ctor, THEN conjunct2, THEN conjunct1,
        rule_format, OF conjI [OF rule(1) conjI [OF sel(3) conjI [OF good(2) cur(2)]]]]
    by (simp add: storing_ctor_def subfield_def sample_defs)
  have b': "extractData_with modelled_findByFilter throwing_ctor no_cursor_tree TWEET_SEARCH
       = Inl (Error ''constructor'')"
    using extractData_total_amended [where t = TWEET_SEARCH and fbf = modelled_findByFilter
        and d = no_cursor_tree and ctor = throwing_ctor, THEN conjunct2, THEN conjunct1,
        rule_format, OF conjI [OF rule(1) conjI [OF sel(2) conjI [OF good(1) cur(1)]]]]
    by (simp add: throwing_ctor_def)
  have e: "extractData_with modelled_findByFilter storing_ctor empty_body USER_DETAILS
       = Inr \<lparr>required = [], cursor = None\<rparr>"
    using extractData_total_amended [where t = USER_DETAILS and fbf = modelled_findByFilter
        and d = empty_body and ctor = storing_ctor, THEN conjunct2, THEN conjunct2,
        THEN conjunct1, rule_format, OF conjI [OF rule(2) conjI [OF sel(4) cur(3)]]]
    by (simp add: storing_ctor_def)
  have f: "extractData_with modelled_findByFilter storing_ctor sample_tree CREATE_TWEET
       = Inr \<lparr>required = [], cursor = Some (JStr ''c1'')\<rparr>"
    using extractData_total_amended [where t = CREATE_TWEET and fbf = modelled_findByFilter
        and d = sample_tree and ctor = storing_ctor, THEN conjunct2, THEN conjunct2,
        THEN conjunct2, THEN conjunct1, rule_format, OF conjI [OF rule(3) cur(4)]]
    by (simp add: storing_ctor_def)
  have g: "extractData no_cursor_tree TWEET_SEARCH
       = Inr \<lparr>required = [Some sample_tweet], cursor = None\<rparr>"
    using extractData_total_amended [where t = TWEET_SEARCH and fbf = modelled_findByFilter
        and d = no_cursor_tree and ctor = storing_ctor, THEN conjunct2, THEN conjunct2,
        THEN conjunct2, THEN conjunct2] b
    by simp
  from a a' b c b' e f g show ?thesis by simp
qed

text \<open>
  C8. The resource type alone selects the rule: \<open>extractData\<close> applies to the tree the
  rule that \<open>extraction_rule\<close> gives for the type, whatever the tree. A type outside
  the eleven of the extraction branches has no rule, and \<open>extractData\<close> returns an empty
  entity list with the cursor.
\<close>

theorem extractData_rule_by_type:
  "extractData d t =
     (case apply_rule (extraction_rule t) d of
        Inl e \<Rightarrow> Inl e
      | Inr req \<Rightarrow> Inr \<lparr>required = req, cursor = spec_cursor d\<rparr>)
   \<and> (t \<notin> set (detail_types @ timeline_tweet_types @ timeline_user_types) \<longrightarrow>
        extraction_rule t = None
        \<and> extractData d t = Inr \<lparr>required = [], cursor = spec_cursor d\<rparr>)"
  by (cases t)
    (simp_all add: extractData_rule detail_types_def timeline_tweet_types_def
      timeline_user_types_def)

theorem extractData_rule_by_type_witness:
  "OTHER_RESOURCE ''FAVORITE_TWEET'' \<notin> set (detail_types @ timeline_tweet_types @ timeline_user_types)
   \<and> extraction_rule (OTHER_RESOURCE ''FAVORITE_TWEET'') = None
   \<and> extractData sample_tree (OTHER_RESOURCE ''FAVORITE_TWEET'') =
       Inr \<lparr>required = [], cursor = Some (JStr ''c1'')\<rparr>"
  using extractData_rule_by_type [of sample_tree "OTHER_RESOURCE ''FAVORITE_TWEET''"]
  by (simp add: detail_types_def timeline_tweet_types_def timeline_user_types_def
      spec_cursor_def matching_def sample_defs)

section \<open>The request pipeline\<close>

lemmas sample_env_defs = sample_env_def sample_response_def

lemmas pipeline_defs =
  request_def axios_def handleHttpError_def handleApiError_def api_message_def

text \<open>
  C3. The claim fails on the code, in two ways. An answer with a status from 201 to 299
  that is no entry of \<open>EHttpStatus\<close> passes \<open>handleHttpError\<close>, whose test is
  \<open>res.status != 200 && res.status in EHttpStatus\<close>, and without platform errors the
  request pipeline returns it instead of throwing. An answer with a status outside 200
  to 299 never reaches \<open>handleHttpError\<close>: the HTTP client rejects first, so the error
  thrown is the client's and its message is not the entry of \<open>EHttpStatus\<close>, even when
  there is one. The middleware alone, given a status other than 200 that is an entry,
  throws an error with that entry as message; an answer with status 200 and no platform
  errors is returned unchanged.
\<close>

theorem request_non_200_status:
  "http env config = Inr res \<Longrightarrow>
     (200 < status res \<and> status res < 300 \<and> EHttpStatus env (status res) = None
        \<and> (errors (data res) = None \<or> errors (data res) = Some []) \<longrightarrow>
          request env config = Inr res)
   \<and> (status res < 200 \<or> 300 \<le> status res \<longrightarrow>
          request env config = Inl (AxiosBadStatus (status res)))
   \<and> (status res = 200 \<and> (errors (data res) = None \<or> errors (data res) = Some []) \<longrightarrow>
          request env config = Inr res)
   \<and> (\<forall>m. status res \<noteq> 200 \<and> EHttpStatus env (status res) = Some m \<longrightarrow>
          handleHttpError env res = Inl (Error m))
   \<and> (status res = 200 \<or> EHttpStatus env (status res) = None \<longrightarrow>
          handleHttpError env res = Inr res)"
  by (auto simp add: pipeline_defs)

theorem request_non_200_status_witness:
  "http sample_env (201, []) = Inr (sample_response 201 [])
   \<and> status (sample_response 201 []) = 201
   \<and> EHttpStatus sample_env 201 = None
   \<and> request sample_env (201, []) = Inr (sample_response 201 [])
   \<and> http sample_env (404, []) = Inr (sample_response 404 [])
   \<and> EHttpStatus sample_env 404 = Some ''NOT_FOUND''
   \<and> request sample_env (404, []) = Inl (AxiosBadStatus 404)
   \<and> handleHttpError sample_env (sample_response 404 []) = Inl (Error ''NOT_FOUND'')
   \<and> request sample_env (200, []) = Inr (sample_response 200 [])"
proof -
  have h: "http sample_env (201, []) = Inr (sample_response 201 [])"
    "http sample_env (404, []) = Inr (sample_response 404 [])"
    "http sample_env (200, []) = Inr (sample_response 200 [])"
    by (simp_all add: sample_env_def)
  have st: "status (sample_response 201 []) = 201" "status (sample_response 404 []) = 404"
    "status (sample_response 200 []) = 200"
    and er: "errors (data (sample_response 201 [])) = None"
    "errors (data (sample_response 200 [])) = None"
    by (simp_all add: sample_response_def)
  have tb: "EHttpStatus sample_env 201 = None" "EHttpStatus sample_env 404 = Some ''NOT_FOUND''"
    by (simp_all add: sample_env_def)
  have a: "request sample_env (201, []) = Inr (sample_response 201 [])"
    using request_non_200_status [OF h(1), THEN conjunct1] st er tb by simp
  have b: "request sample_env (404, []) = Inl (AxiosBadStatus 404)"
    using request_non_200_status [OF h(2), THEN conjunct2, THEN conjunct1] st by simp
  have c: "request sample_env (200, []) = Inr (sample_response 200 [])"
    using request_non_200_status [OF h(3), THEN conjunct2, THEN conjunct2, THEN conjunct1] st er
    by simp
  have d: "handleHttpError sample_env (sample_response 404 []) = Inl (Error ''NOT_FOUND'')"
    using request_non_200_status [OF h(2), THEN conjunct2, THEN conjunct2, THEN conjunct2,
        THEN conjunct1] st tb by simp
  from h st tb a b c d show ?thesis by simp
qed

text \<open>
  C4. \<open>handleApiError\<close> throws exactly when the body has an \<open>errors\<close> array that is
  not empty. The message is found from the code of the first error alone, whatever
  follows it in the array: the code gives a key by \<open>findKeyByValue\<close> on
  \<open>EErrorCodes\<close>, and the key gives the message by \<open>EApiErrors\<close>. When the key has
  no message the error is made from \<open>undefined\<close> and its message is empty; when the
  code has no key, \<open>EApiErrors\<close> is read at \<open>undefined\<close>. Otherwise the response is
  returned unchanged.
\<close>

theorem handleApiError_first_error:
  "((\<exists>e. handleApiError env res = Inl e) \<longleftrightarrow> (\<exists>x xs. errors (data res) = Some (x # xs)))
   \<and> (\<forall>x xs k m. errors (data res) = Some (x # xs)
         \<and> findKeyByValue_EErrorCodes env (code x) = Some k \<and> EApiErrors env k = Some m \<longrightarrow>
         handleApiError env res = Inl (Error m))
   \<and> (\<forall>x xs k. errors (data res) = Some (x # xs)
         \<and> findKeyByValue_EErrorCodes env (code x) = Some k \<and> EApiErrors env k = None \<longrightarrow>
         handleApiError env res = Inl (Error []))
   \<and> (\<forall>x xs. errors (data res) = Some (x # xs)
         \<and> findKeyByValue_EErrorCodes env (code x) = None \<longrightarrow>
         handleApiError env res =
           Inl (Error (case EApiErrors env ''undefined'' of None \<Rightarrow> [] | Some m \<Rightarrow> m)))
   \<and> ((\<nexists>x xs. errors (data res) = Some (x # xs)) \<longrightarrow> handleApiError env res = Inr res)"
proof (intro conjI allI impI)
  show "(\<exists>e. handleApiError env res = Inl e) \<longleftrightarrow> (\<exists>x xs. errors (data res) = Some (x # xs))"
    by (auto simp add: handleApiError_def split: option.splits list.splits)
next
  fix x xs k m
  assume "errors (data res) = Some (x # xs)
         \<and> findKeyByValue_EErrorCodes env (code x) = Some k \<and> EApiErrors env k = Some m"
  then show "handleApiError env res = Inl (Error m)"
    by (simp add: handleApiError_def api_message_def)
next
  fix x xs k
  assume "errors (data res) = Some (x # xs)
         \<and> findKeyByValue_EErrorCodes env (code x) = Some k \<and> EApiErrors env k = None"
  then show "handleApiError env res = Inl (Error [])"
    by (simp add: handleApiError_def api_message_def)
next
  fix x xs
  assume "errors (data res) = Some (x # xs) \<and> findKeyByValue_EErrorCodes env (code x) = None"
  then show "handleApiError env res =
           Inl (Error (case EApiErrors env ''undefined'' of None \<Rightarrow> [] | Some m \<Rightarrow> m))"
    by (simp add: handleApiError_def api_message_def split: option.splits)
next
  assume "\<nexists>x xs. errors (data res) = Some (x # xs)"
  then show "handleApiError env res = Inr res"
    by (auto simp add: handleApiError_def split: option.splits list.splits)
qed

theorem handleApiError_first_error_witness:
  "handleApiError sample_env (sample_response 200 [32, 88]) = Inl (Error ''Failed to authenticate'')
   \<and> handleApiError sample_env (sample_response 200 [88, 32]) = Inl (Error ''Too many requests'')
   \<and> handleApiError sample_env (sample_response 200 [326, 32]) = Inl (Error [])
   \<and> handleApiError sample_env (sample_response 200 [5, 32]) = Inl (Error [])
   \<and> errors (data (sample_response 200 [])) = None
   \<and> handleApiError sample_env (sample_response 200 []) = Inr (sample_response 200 [])"
proof -
  have er: "errors (data (sample_response 200 [32, 88])) = Some [\<lparr>code = 32\<rparr>, \<lparr>code = 88\<rparr>]"
    "errors (data (sample_response 200 [88, 32])) = Some [\<lparr>code = 88\<rparr>, \<lparr>code = 32\<rparr>]"
    "errors (data (sample_response 200 [326, 32])) = Some [\<lparr>code = 326\<rparr>, \<lparr>code = 32\<rparr>]"
    "errors (data (sample_response 200 [5, 32])) = Some [\<lparr>code = 5\<rparr>, \<lparr>code = 32\<rparr>]"
    and no: "errors (data (sample_response 200 [])) = None"
    by (simp_all add: sample_response_def)
  have key: "findKeyByValue_EErrorCodes sample_env (code \<lparr>code = 32\<rparr>) = Some ''COULD_NOT_AUTHENTICATE''"
    "findKeyByValue_EErrorCodes sample_env (code \<lparr>code = 88\<rparr>) = Some ''RATE_LIMIT_EXCEEDED''"
    "findKeyByValue_EErrorCodes sample_env (code \<lparr>code = 326\<rparr>) = Some ''ACCOUNT_LOCKED''"
    "findKeyByValue_EErrorCodes sample_env (code \<lparr>code = 5\<rparr>) = None"
    by (simp_all add: sample_env_def)
  have msg: "EApiErrors sample_env ''COULD_NOT_AUTHENTICATE'' = Some ''Failed to authenticate''"
    "EApiErrors sample_env ''RATE_LIMIT_EXCEEDED'' = Some ''Too many requests''"
    "EApiErrors sample_env ''ACCOUNT_LOCKED'' = None"
    "EApiErrors sample_env ''undefined'' = None"
    by (simp_all add: sample_env_def)
  have a: "handleApiError sample_env (sample_response 200 [32, 88]) = Inl (Error ''Failed to authenticate'')"
    using handleApiError_first_error [of sample_env "sample_response 200 [32, 88]",
        THEN conjunct2, THEN conjunct1, rule_format, OF conjI [OF er(1) conjI [OF key(1) msg(1)]]] .
  have b: "handleApiError sample_env (sample_response 200 [88, 32]) = Inl (Error ''Too many requests'')"
    using handleApiError_first_error [of sample_env "sample_response 200 [88, 32]",
        THEN conjunct2, THEN conjunct1, rule_format, OF conjI [OF er(2) conjI [OF key(2) msg(2)]]] .
  have c: "handleApiError sample_env (sample_response 200 [326, 32]) = Inl (Error [])"
    using handleApiError_first_error [of sample_env "sample_response 200 [326, 32]",
        THEN conjunct2, THEN conjunct2, THEN conjunct1, rule_format,
        OF conjI [OF er(3) conjI [OF key(3) msg(3)]]] .
  have d: "handleApiError sample_env (sample_response 200 [5, 32]) = Inl (Error [])"
    using handleApiError_first_error [of sample_env "sample_response 200 [5, 32]",
        THEN conjunct2, THEN conjunct2, THEN conjunct2, THEN conjunct1, rule_format,
        OF conjI [OF er(4) key(4)]] msg(4)
    by simp
  have e: "handleApiError sample_env (sample_response 200 []) = Inr (sample_response 200 [])"
    using handleApiError_first_error [of sample_env "sample_response 200 []"] no by simp
  from a b c d e no show ?thesis by simp
qed

text \<open>
  C9. \<open>post\<close> never returns \<open>false\<close>: it returns \<open>true\<close> when the request is built
  and the request pipeline returns, and it throws the error of the one that throws.
\<close>

theorem post_never_false:
  "post env t a \<noteq> Inr False
   \<and> ((\<exists>req res. newRequest env t a = Inr req \<and> request env req = Inr res) \<longrightarrow>
        post env t a = Inr True)
   \<and> (\<forall>e. (newRequest env t a = Inl e
            \<or> (\<exists>req. newRequest env t a = Inr req \<and> request env req = Inl e)) \<longrightarrow>
          post env t a = Inl e)
   \<and> (\<forall>b. post env t a = Inr b \<longrightarrow>
          (\<exists>req res. newRequest env t a = Inr req \<and> request env req = Inr res))"
  by (auto simp add: post_def split: sum.splits)

theorem post_never_false_witness:
  "newRequest sample_env CREATE_TWEET (200, []) = Inr (200, [])
   \<and> request sample_env (200, []) = Inr (sample_response 200 [])
   \<and> post sample_env CREATE_TWEET (200, []) = Inr True
   \<and> newRequest sample_env CREATE_TWEET (429, []) = Inr (429, [])
   \<and> request sample_env (429, []) = Inl (AxiosBadStatus 429)
   \<and> post sample_env CREATE_TWEET (429, []) = Inl (AxiosBadStatus 429)"
proof -
  have a: "newRequest sample_env CREATE_TWEET (200, []) = Inr (200, [])"
    and b: "newRequest sample_env CREATE_TWEET (429, []) = Inr (429, [])"
    by (simp_all add: sample_env_def)
  have c: "request sample_env (200, []) = Inr (sample_response 200 [])"
    and d: "request sample_env (429, []) = Inl (AxiosBadStatus 429)"
    by (simp_all add: pipeline_defs sample_env_defs)
  show ?thesis
    using a b c d post_never_false [of sample_env CREATE_TWEET "(200, [])"]
      post_never_false [of sample_env CREATE_TWEET "(429, [])"]
    by simp
qed

section \<open>The cache of getTweetById\<close>

text \<open>
  C10. When \<open>readData\<close> gives a cached tweet, \<open>getTweetById\<close> returns it as it is, and
  the read is the only call made: nothing is fetched, extracted or cached. When it gives
  nothing, the tweet is fetched, extracted, cached and deserialized, in this order. A
  call other than the read is made only after a miss.
\<close>

theorem getTweetById_cache:
  "(\<forall>cached w1. readData env w tweetId = (Inr (Some cached), w1) \<longrightarrow>
        getTweetById env w tweetId = (Inr cached, w1, [ReadData tweetId]))
   \<and> (\<forall>w1 res w2 dat u w3.
        readData env w tweetId = (Inr None, w1)
        \<and> fetchData env w1 (tweetDetailsUrl env tweetId) = (Inr res, w2)
        \<and> extractTweet env res tweetId = Inr dat
        \<and> cacheData env w2 dat = (Inr u, w3) \<longrightarrow>
        getTweetById env w tweetId =
          (toTweet env (index0 (data_required env dat)), w3,
           [ReadData tweetId, FetchData (tweetDetailsUrl env tweetId), ExtractTweet, CacheData,
            ToTweet]))
   \<and> (\<forall>c \<in> set (snd (snd (getTweetById env w tweetId))).
        c \<noteq> ReadData tweetId \<longrightarrow> (\<exists>w1. readData env w tweetId = (Inr None, w1)))"
proof (intro conjI allI impI ballI)
  fix cached w1
  assume "readData env w tweetId = (Inr (Some cached), w1)"
  then show "getTweetById env w tweetId = (Inr cached, w1, [ReadData tweetId])"
    by (simp add: getTweetById_def)
next
  fix w1 res w2 dat u w3
  assume "readData env w tweetId = (Inr None, w1)
        \<and> fetchData env w1 (tweetDetailsUrl env tweetId) = (Inr res, w2)
        \<and> extractTweet env res tweetId = Inr dat
        \<and> cacheData env w2 dat = (Inr u, w3)"
  then show "getTweetById env w tweetId =
          (toTweet env (index0 (data_required env dat)), w3,
           [ReadData tweetId, FetchData (tweetDetailsUrl env tweetId), ExtractTweet, CacheData,
            ToTweet])"
    by (simp add: getTweetById_def)
next
  fix c
  assume mem: "c \<in> set (snd (snd (getTweetById env w tweetId)))" and ne: "c \<noteq> ReadData tweetId"
  obtain r w1 where rd: "readData env w tweetId = (r, w1)"
    by (cases "readData env w tweetId")
  show "\<exists>w1. readData env w tweetId = (Inr None, w1)"
  proof (cases r)
    case (Inl e)
    with rd mem ne show ?thesis by (simp add: getTweetById_def)
  next
    case (Inr v)
    show ?thesis
    proof (cases v)
      case None
      with Inr rd show ?thesis by simp
    next
      case (Some cached)
      with Inr rd mem ne show ?thesis by (simp add: getTweetById_def)
    qed
  qed
qed

theorem getTweetById_cache_witness:
  "readData sample_tweet_env [(''1'', ''cached'')] ''1'' = (Inr (Some ''cached''), [(''1'', ''cached'')])
   \<and> getTweetById sample_tweet_env [(''1'', ''cached'')] ''1'' =
       (Inr ''cached'', [(''1'', ''cached'')], [ReadData ''1''])
   \<and> readData sample_tweet_env [(''1'', ''cached'')] ''2'' = (Inr None, [(''1'', ''cached'')])
   \<and> getTweetById sample_tweet_env [(''1'', ''cached'')] ''2'' =
       (Inr ''tweet 2'', [(''2'', ''tweet 2''), (''1'', ''cached'')],
        [ReadData ''2'', FetchData ''/TweetDetail/2'', ExtractTweet, CacheData, ToTweet])
   \<and> FetchData ''/TweetDetail/2'' \<in> set (snd (snd (getTweetById sample_tweet_env [(''1'', ''cached'')] ''2'')))"
proof -
  have a: "readData sample_tweet_env [(''1'', ''cached'')] ''1''
      = (Inr (Some ''cached''), [(''1'', ''cached'')])"
    and b: "readData sample_tweet_env [(''1'', ''cached'')] ''2'' = (Inr None, [(''1'', ''cached'')])"
    by (simp_all add: sample_tweet_env_def)
  have c: "fetchData sample_tweet_env [(''1'', ''cached'')] (tweetDetailsUrl sample_tweet_env ''2'')
      = (Inr sample_tree, [(''1'', ''cached'')])"
    and d: "extractTweet sample_tweet_env sample_tree ''2'' = Inr [''2'']"
    and e: "cacheData sample_tweet_env [(''1'', ''cached'')] [''2'']
      = (Inr (), [(''2'', ''tweet 2''), (''1'', ''cached'')])"
    and f: "toTweet sample_tweet_env (index0 (data_required sample_tweet_env [''2''])) = Inr ''tweet 2''"
    and g: "tweetDetailsUrl sample_tweet_env ''2'' = ''/TweetDetail/2''"
    by (simp_all add: sample_tweet_env_def)
  have hit: "getTweetById sample_tweet_env [(''1'', ''cached'')] ''1'' =
       (Inr ''cached'', [(''1'', ''cached'')], [ReadData ''1''])"
    using getTweetById_cache [THEN conjunct1, rule_format, OF a] .
  have miss: "getTweetById sample_tweet_env [(''1'', ''cached'')] ''2'' =
       (toTweet sample_tweet_env (index0 (data_required sample_tweet_env [''2''])),
        [(''2'', ''tweet 2''), (''1'', ''cached'')],
        [ReadData ''2'', FetchData (tweetDetailsUrl sample_tweet_env ''2''), ExtractTweet,
         CacheData, ToTweet])"
    using getTweetById_cache [THEN conjunct2, THEN conjunct1, rule_format,
        OF conjI [OF b conjI [OF c conjI [OF d e]]]] .
  have miss': "getTweetById sample_tweet_env [(''1'', ''cached'')] ''2'' =
       (Inr ''tweet 2'', [(''2'', ''tweet 2''), (''1'', ''cached'')],
        [ReadData ''2'', FetchData ''/TweetDetail/2'', ExtractTweet, CacheData, ToTweet])"
    unfolding miss f g ..
  show ?thesis
    unfolding hit miss' a b by simp
qed

end
